theory Spec2Isabelle
  imports Main
begin

section \<open>The products endpoint of the API gateway\<close>

text \<open>
  This theory embeds \<^verbatim>\<open>get_products\<close> of \<^verbatim>\<open>src/api-gateway/main.py\<close>
  (lines 323-418): the handler of \<^verbatim>\<open>GET /products\<close>, a read-through cache in front
  of a PostgreSQL query, with synthetic records when the query cannot be served.

  The handler talks to three collaborators that are not code of the repository: the
  Redis client, the asyncpg connection pool and Python's own library (\<^verbatim>\<open>json\<close>,
  \<^verbatim>\<open>random\<close>, float arithmetic). Their state is part of an explicit world that
  every operation takes and returns; what they compute is either written out (the
  key-value store of Redis) or taken as a parameter (the JSON codec, the random number
  generator, float arithmetic), so that a theorem holds for every behaviour of the
  library. An exception is a value: every operation that can raise returns
  \<open>exn + 'a\<close>, and \<^verbatim>\<open>try ... except Exception\<close> is the combinator
  \<open>try_except\<close>.
\<close>

subsection \<open>Python values and exceptions\<close>

text \<open>Every handler of the source is \<^verbatim>\<open>except Exception as e\<close>; an exception is modelled
  by its message, \<^verbatim>\<open>str(e)\<close>. What is no \<^verbatim>\<open>Exception\<close> in Python
  (\<^verbatim>\<open>KeyboardInterrupt\<close>, the cancellation of the task) is not modelled.\<close>

datatype exn = Exception string

fun message :: "exn \<Rightarrow> string" where
  "message (Exception m) = m"

text \<open>The values that a JSON document or the handler's dictionaries hold. The type
  \<open>'f\<close> stands for Python's \<^verbatim>\<open>float\<close>; a \<^verbatim>\<open>dict\<close> is an association list in
  insertion order.\<close>

datatype 'f pyval =
    PNone
  | PBool bool
  | PInt int
  | PFloat 'f
  | PStr string
  | PList "'f pyval list"
  | PDict "(string \<times> 'f pyval) list"

text \<open>\<^verbatim>\<open>d[key]\<close> on a dictionary; \<open>None\<close> is Python's \<^verbatim>\<open>KeyError\<close> (or a value that
  is no dictionary).\<close>

fun item :: "'f pyval \<Rightarrow> string \<Rightarrow> 'f pyval option" where
  "item (PDict kvs) k = map_of kvs k"
| "item _ k = None"

subsection \<open>Formatting integers\<close>

text \<open>\<^verbatim>\<open>str(n)\<close> and the f-string fields \<^verbatim>\<open>{n}\<close> and \<^verbatim>\<open>{n:03d}\<close> for a Python
  \<^verbatim>\<open>int\<close>.\<close>

definition digit_char :: "nat \<Rightarrow> char" where
  "digit_char d = ''0123456789'' ! (d mod 10)"

fun str_nat :: "nat \<Rightarrow> string" where
  "str_nat n = (if n < 10 then [digit_char n] else str_nat (n div 10) @ [digit_char (n mod 10)])"

declare str_nat.simps [simp del]

definition str_int :: "int \<Rightarrow> string" where
  "str_int i = (if i < 0 then CHR ''-'' # str_nat (nat (- i)) else str_nat (nat i))"

definition zero_pad :: "nat \<Rightarrow> string \<Rightarrow> string" where
  "zero_pad width s = replicate (width - length s) CHR ''0'' @ s"

definition format_03d :: "int \<Rightarrow> string" where
  "format_03d i =
     (if i < 0 then CHR ''-'' # zero_pad 2 (str_nat (nat (- i))) else zero_pad 3 (str_nat (nat i)))"

text \<open>\<^verbatim>\<open>range(a, b)\<close>.\<close>

definition py_range :: "int \<Rightarrow> int \<Rightarrow> int list" where
  "py_range a b = [a..b - 1]"

subsection \<open>The library\<close>

text \<open>
  The functions of Python's library that the handler calls, as parameters:
  \<^verbatim>\<open>json.loads\<close> and \<^verbatim>\<open>json.dumps\<close> (either may raise), \<^verbatim>\<open>float(x)\<close> of a
  \<^verbatim>\<open>Decimal\<close>, the product of two floats, the literal \<^verbatim>\<open>0.9\<close>,
  \<^verbatim>\<open>random.randint\<close>, \<^verbatim>\<open>random.uniform\<close> and \<^verbatim>\<open>round(x, n)\<close>. The type
  \<open>'g\<close> is the state of the random number generator.
\<close>

datatype decimal = Decimal int nat

record ('f, 'g) pylib =
  json_loads :: "string \<Rightarrow> exn + 'f pyval"
  json_dumps :: "'f pyval \<Rightarrow> exn + string"
  float_of :: "decimal \<Rightarrow> 'f"
  float_mul :: "'f \<Rightarrow> 'f \<Rightarrow> 'f"
  float_0_9 :: "'f"
  randint :: "int \<Rightarrow> int \<Rightarrow> 'g \<Rightarrow> int \<times> 'g"
  uniform :: "int \<Rightarrow> int \<Rightarrow> 'g \<Rightarrow> 'f \<times> 'g"
  round_to :: "'f \<Rightarrow> nat \<Rightarrow> 'f"

subsection \<open>The collaborators and the world\<close>

text \<open>
  A row of \<^verbatim>\<open>inventory.products\<close>, with the five columns the query selects. A
  \<^verbatim>\<open>numeric\<close> price is a \<^verbatim>\<open>Decimal\<close> (\<open>Decimal m s\<close> is \<open>m / 10 ^ s\<close>) or
  \<^verbatim>\<open>None\<close> for SQL NULL.
\<close>

datatype ident = IntId int | StrId string

record row =
  id_col :: ident
  sku :: string
  name :: string
  stock_level :: int
  price :: "decimal option"

text \<open>
  The Redis client: the stored strings with their remaining time to live in seconds,
  and for each of the two commands the handler sends whether it raises (a connection
  error, a timeout). \<^verbatim>\<open>decode_responses=True\<close>: \<^verbatim>\<open>get\<close> returns a \<^verbatim>\<open>str\<close> or
  \<^verbatim>\<open>None\<close>.
\<close>

record redis =
  entries :: "string \<Rightarrow> (string \<times> int) option"
  get_fault :: "exn option"
  setex_fault :: "exn option"

text \<open>
  The asyncpg pool: \<^verbatim>\<open>acquire()\<close> on entering \<^verbatim>\<open>async with\<close>, \<^verbatim>\<open>conn.fetch\<close>
  with the query's \<^verbatim>\<open>LIMIT $1\<close>, and the release of the connection on leaving
  \<^verbatim>\<open>async with\<close>. Each may raise.
\<close>

record pool =
  acquire_fault :: "exn option"
  fetch :: "int \<Rightarrow> exn + row list"
  release_fault :: "exn option"

text \<open>What the handler does to its collaborators, in order: the calls it makes and the
  lines it logs.\<close>

datatype event =
    RedisGet string
  | RedisSetex string int string
  | PoolAcquire
  | ConnFetch int
  | PoolRelease
  | LogWarning string
  | LogError string

text \<open>The globals \<^verbatim>\<open>redis_client\<close> and \<^verbatim>\<open>db_pool\<close> (\<^verbatim>\<open>None\<close> when the connection
  failed at startup), the random number generator, the clock as
  \<^verbatim>\<open>datetime.utcnow().isoformat()\<close> reads it, and the events so far.\<close>

record 'g world =
  redis_client :: "redis option"
  db_pool :: "pool option"
  rng :: 'g
  utcnow :: string
  trace :: "event list"

definition emit :: "event \<Rightarrow> 'g world \<Rightarrow> 'g world" where
  "emit e w = w\<lparr>trace := trace w @ [e]\<rparr>"

text \<open>\<^verbatim>\<open>redis_client.get(key)\<close>.\<close>

definition redis_get :: "redis \<Rightarrow> string \<Rightarrow> exn + string option" where
  "redis_get rc key =
     (case get_fault rc of
        Some e \<Rightarrow> Inl e
      | None \<Rightarrow> Inr (map_option fst (entries rc key)))"

text \<open>\<^verbatim>\<open>redis_client.setex(key, ttl, value)\<close>.\<close>

definition redis_setex :: "redis \<Rightarrow> string \<Rightarrow> int \<Rightarrow> string \<Rightarrow> (exn + unit) \<times> redis" where
  "redis_setex rc key ttl v =
     (case setex_fault rc of
        Some e \<Rightarrow> (Inl e, rc)
      | None \<Rightarrow> (Inr (), rc\<lparr>entries := (entries rc)(key \<mapsto> (v, ttl))\<rparr>))"



subsection \<open>Exceptions as control flow\<close>

text \<open>A computation returns a value or raises, and leaves a world.
  \<open>try_except body handler\<close> is \<^verbatim>\<open>try: body except Exception as e: handler\<close>;
  \<open>and_then\<close> runs the rest of a function after a statement that did not raise.\<close>

type_synonym ('a, 'g) outcome = "(exn + 'a) \<times> 'g world"

definition try_except :: "('a, 'g) outcome \<Rightarrow> (exn \<Rightarrow> 'g world \<Rightarrow> ('a, 'g) outcome) \<Rightarrow> ('a, 'g) outcome" where
  "try_except body handler =
     (case body of
        (Inl e, w) \<Rightarrow> handler e w
      | (Inr v, w) \<Rightarrow> (Inr v, w))"

definition and_then :: "('a, 'g) outcome \<Rightarrow> ('a \<Rightarrow> 'g world \<Rightarrow> ('b, 'g) outcome) \<Rightarrow> ('b, 'g) outcome" where
  "and_then m f =
     (case m of
        (Inl e, w) \<Rightarrow> (Inl e, w)
      | (Inr v, w) \<Rightarrow> f v w)"

subsection \<open>The handler\<close>

text \<open>The dictionary \<^verbatim>\<open>result\<close> that the handler returns (lines 328-333), with its four
  keys. \<open>source\<close> is a Python string.\<close>

record 'f query_result =
  products :: "'f pyval"
  source :: string
  cached :: bool
  timestamp :: string

text \<open>\<^verbatim>\<open>f"products:list:{limit}"\<close> (lines 338 and 379).\<close>

definition cache_key :: "int \<Rightarrow> string" where
  "cache_key limit = ''products:list:'' @ str_int limit"

text \<open>
  Lines 338-345, the body of the first \<^verbatim>\<open>try\<close>: the value is \<open>Some v\<close> when the body
  returns from the handler with the cached document \<open>v\<close>, and \<open>None\<close> when it falls out
  of \<^verbatim>\<open>if cached_data:\<close> (no entry, or the empty string, which Python takes for false).
\<close>

definition read_cache :: "('f, 'g) pylib \<Rightarrow> int \<Rightarrow> redis \<Rightarrow> 'g world \<Rightarrow> ('f pyval option, 'g) outcome" where
  "read_cache lib limit rc w =
     and_then (redis_get rc (cache_key limit), emit (RedisGet (cache_key limit)) w)
       (\<lambda>cached_data w1.
          case cached_data of
            None \<Rightarrow> (Inr None, w1)
          | Some s \<Rightarrow>
              if s = [] then (Inr None, w1)
              else and_then (json_loads lib s, w1) (\<lambda>v w2. (Inr (Some v), w2)))"

text \<open>Lines 336-347: \<^verbatim>\<open>if redis_client:\<close> around the \<^verbatim>\<open>try\<close>, whose handler logs a
  warning and goes on.\<close>

definition try_cache :: "('f, 'g) pylib \<Rightarrow> int \<Rightarrow> 'g world \<Rightarrow> ('f pyval option, 'g) outcome" where
  "try_cache lib limit w =
     (case redis_client w of
        None \<Rightarrow> (Inr None, w)
      | Some rc \<Rightarrow>
          try_except (read_cache lib limit rc w)
            (\<lambda>e w1. (Inr None, emit (LogWarning (''Cache read failed: '' @ message e)) w1)))"

text \<open>\<^verbatim>\<open>str(p["id"])\<close>, and the truth value of \<^verbatim>\<open>p["price"]\<close>: \<^verbatim>\<open>None\<close> and a
  \<^verbatim>\<open>Decimal\<close> equal to zero are false.\<close>

fun str_ident :: "ident \<Rightarrow> string" where
  "str_ident (IntId i) = str_int i"
| "str_ident (StrId s) = s"

fun nonzero_price :: "decimal option \<Rightarrow> decimal option" where
  "nonzero_price None = None"
| "nonzero_price (Some (Decimal m s)) = (if m = 0 then None else Some (Decimal m s))"

text \<open>Lines 361-369: the dictionary built from one row.\<close>

definition product_dict :: "('f, 'g) pylib \<Rightarrow> row \<Rightarrow> 'f pyval" where
  "product_dict lib p =
     PDict
      [(''id'', PStr (str_ident (id_col p))),
       (''sku'', PStr (sku p)),
       (''name'', PStr (name p)),
       (''stock_level'', PInt (stock_level p)),
       (''price'',
          case nonzero_price (price p) of Some d \<Rightarrow> PFloat (float_of lib d) | None \<Rightarrow> PInt 0),
       (''discounted_price'',
          case nonzero_price (price p) of
            Some d \<Rightarrow> PFloat (float_mul lib (float_of lib d) (float_0_9 lib))
          | None \<Rightarrow> PInt 0)]"

text \<open>
  Lines 376-386, \<^verbatim>\<open>if redis_client and product_list:\<close> with its own \<^verbatim>\<open>try\<close>: the
  key, then \<^verbatim>\<open>json.dumps(product_list)\<close>, then \<^verbatim>\<open>setex\<close> with 300 seconds; an
  exception of either is logged as a warning.
\<close>

definition cache_result :: "('f, 'g) pylib \<Rightarrow> int \<Rightarrow> 'f pyval list \<Rightarrow> 'g world \<Rightarrow> (unit, 'g) outcome" where
  "cache_result lib limit product_list w =
     (case redis_client w of
        None \<Rightarrow> (Inr (), w)
      | Some rc \<Rightarrow>
          if product_list = [] then (Inr (), w)
          else
            try_except
              (and_then (json_dumps lib (PList product_list), w)
                 (\<lambda>payload w1.
                    case redis_setex rc (cache_key limit) 300 payload of
                      (r, rc') \<Rightarrow>
                        (r, (emit (RedisSetex (cache_key limit) 300 payload) w1)
                              \<lparr>redis_client := Some rc'\<rparr>)))
              (\<lambda>e w1. (Inr (), emit (LogWarning (''Cache write failed: '' @ message e)) w1)))"

text \<open>Leaving \<^verbatim>\<open>async with db_pool.acquire() as conn:\<close>: the connection is released
  whether the block raised or not, and an exception of the release is the one that
  leaves the statement.\<close>

definition release :: "pool \<Rightarrow> ('a, 'g) outcome \<Rightarrow> ('a, 'g) outcome" where
  "release pl body =
     (case body of
        (r, w) \<Rightarrow>
          (case release_fault pl of
             Some e \<Rightarrow> (Inl e, emit PoolRelease w)
           | None \<Rightarrow> (r, emit PoolRelease w)))"

text \<open>Lines 352-386, the body of the second \<^verbatim>\<open>try\<close>: acquire a connection, run the
  query, build \<^verbatim>\<open>product_list\<close>, write it to the cache, release the connection.\<close>

definition fetch_products :: "('f, 'g) pylib \<Rightarrow> int \<Rightarrow> pool \<Rightarrow> 'g world \<Rightarrow> ('f pyval list, 'g) outcome" where
  "fetch_products lib limit pl w =
     and_then
       (case acquire_fault pl of Some e \<Rightarrow> Inl e | None \<Rightarrow> Inr (), emit PoolAcquire w)
       (\<lambda>conn w1.
          release pl
            (and_then (fetch pl limit, emit (ConnFetch limit) w1)
               (\<lambda>rows w2.
                  let product_list = map (product_dict lib) rows
                  in and_then (cache_result lib limit product_list w2)
                       (\<lambda>written w3. (Inr product_list, w3)))))"

text \<open>Lines 392-399 and 406-413: one synthetic record. Python evaluates the three
  random draws in the order of the dictionary's keys.\<close>

definition mock_product :: "('f, 'g) pylib \<Rightarrow> int \<Rightarrow> 'g \<Rightarrow> 'f pyval \<times> 'g" where
  "mock_product lib i g =
     (case randint lib 0 100 g of
        (stock, g1) \<Rightarrow>
          (case uniform lib 10 1000 g1 of
             (pr, g2) \<Rightarrow>
               (case uniform lib 9 900 g2 of
                  (dp, g3) \<Rightarrow>
                    (PDict
                      [(''id'', PStr (''mock-'' @ str_int i)),
                       (''sku'', PStr (''MOCK-'' @ format_03d i)),
                       (''name'', PStr (''Mock Product '' @ str_int i)),
                       (''stock_level'', PInt stock),
                       (''price'', PFloat (round_to lib pr 2)),
                       (''discounted_price'', PFloat (round_to lib dp 2))], g3))))"

text \<open>The list comprehension over \<^verbatim>\<open>range(1, min(limit + 1, 6))\<close>.\<close>

fun mock_products :: "('f, 'g) pylib \<Rightarrow> int list \<Rightarrow> 'g \<Rightarrow> 'f pyval list \<times> 'g" where
  "mock_products lib [] g = ([], g)"
| "mock_products lib (i # is) g =
     (case mock_product lib i g of
        (p, g1) \<Rightarrow> (case mock_products lib is g1 of (ps, g2) \<Rightarrow> (p # ps, g2)))"

definition mock_result :: "('f, 'g) pylib \<Rightarrow> int \<Rightarrow> 'f query_result \<Rightarrow> 'g world \<Rightarrow> ('f query_result, 'g) outcome" where
  "mock_result lib limit result w =
     (case mock_products lib (py_range 1 (min (limit + 1) 6)) (rng w) of
        (ps, g) \<Rightarrow> (Inr (result\<lparr>products := PList ps, source := ''mock''\<rparr>), w\<lparr>rng := g\<rparr>))"

text \<open>Lines 350-416: \<^verbatim>\<open>if db_pool:\<close> with the second \<^verbatim>\<open>try\<close>, whose handler logs an
  error and returns synthetic records, and the \<^verbatim>\<open>else\<close> branch, which returns them
  too.\<close>

definition fetch_or_mock :: "('f, 'g) pylib \<Rightarrow> int \<Rightarrow> 'f query_result \<Rightarrow> 'g world \<Rightarrow> ('f query_result, 'g) outcome" where
  "fetch_or_mock lib limit result w =
     (case db_pool w of
        Some pl \<Rightarrow>
          try_except
            (and_then (fetch_products lib limit pl w)
               (\<lambda>product_list w1. (Inr (result\<lparr>products := PList product_list\<rparr>), w1)))
            (\<lambda>e w1. mock_result lib limit result
                       (emit (LogError (''Database error: '' @ message e)) w1))
      | None \<Rightarrow> mock_result lib limit result w)"

text \<open>The handler. \<open>Inl e\<close> would be an exception that leaves it.\<close>

definition get_products :: "('f, 'g) pylib \<Rightarrow> int \<Rightarrow> 'g world \<Rightarrow> ('f query_result, 'g) outcome" where
  "get_products lib limit w =
     (let result = \<lparr>products = PList [], source = ''database'', cached = False,
                    timestamp = utcnow w\<rparr>
      in and_then (try_cache lib limit w)
           (\<lambda>hit w1.
              case hit of
                Some v \<Rightarrow> (Inr (result\<lparr>products := v, source := ''cache'', cached := True\<rparr>), w1)
              | None \<Rightarrow> fetch_or_mock lib limit result w1))"

subsection \<open>Observing a run\<close>

text \<open>The \<^verbatim>\<open>setex\<close> calls among the events: key, time to live and value of each.\<close>

fun cache_writes :: "event list \<Rightarrow> (string \<times> int \<times> string) list" where
  "cache_writes [] = []"
| "cache_writes (RedisSetex k ttl v # es) = (k, ttl, v) # cache_writes es"
| "cache_writes (e # es) = cache_writes es"

text \<open>The \<^verbatim>\<open>setex\<close> calls of lines 376-386 for a given \<^verbatim>\<open>product_list\<close>: none without
  a client or for an empty list, none when \<^verbatim>\<open>json.dumps\<close> raises, one otherwise.\<close>

definition setex_calls :: "('f, 'g) pylib \<Rightarrow> int \<Rightarrow> 'f pyval list \<Rightarrow> 'g world \<Rightarrow> (string \<times> int \<times> string) list" where
  "setex_calls lib limit product_list w =
     (if redis_client w = None \<or> product_list = [] then []
      else (case json_dumps lib (PList product_list) of
              Inl e \<Rightarrow> []
            | Inr payload \<Rightarrow> [(cache_key limit, 300, payload)]))"

text \<open>
  A record carries the discount: its \<^verbatim>\<open>discounted_price\<close> is its \<^verbatim>\<open>price\<close> times
  \<^verbatim>\<open>0.9\<close>, as floats. Where the price is the integer that the source writes for a
  missing or zero price, that integer is 0 and so is the discounted price
  (\<^verbatim>\<open>0 * 0.9 == 0\<close> in Python).
\<close>

definition discount_applied :: "('f, 'g) pylib \<Rightarrow> 'f pyval \<Rightarrow> bool" where
  "discount_applied lib d =
     (case item d ''price'' of
        Some (PFloat x) \<Rightarrow>
          item d ''discounted_price'' = Some (PFloat (float_mul lib x (float_0_9 lib)))
      | Some (PInt i) \<Rightarrow> i = 0 \<and> item d ''discounted_price'' = Some (PInt 0)
      | _ \<Rightarrow> False)"


subsection \<open>A sample library and sample worlds\<close>

text \<open>
  An instance of the library for running the model on concrete inputs: floats are
  exact decimals, the random numbers come from a counter, and the JSON codec knows the
  documents of the examples below and raises on everything else.
\<close>

fun decimal_mul :: "decimal \<Rightarrow> decimal \<Rightarrow> decimal" where
  "decimal_mul (Decimal a s) (Decimal b t) = Decimal (a * b) (s + t)"

definition sample_rows :: "row list" where
  "sample_rows =
     [\<lparr>id_col = IntId 1, sku = ''SKU-1'', name = ''Widget'', stock_level = 7,
        price = Some (Decimal 1999 2)\<rparr>,
      \<lparr>id_col = IntId 2, sku = ''SKU-2'', name = ''Gadget'', stock_level = 0,
        price = None\<rparr>,
      \<lparr>id_col = StrId ''c3'', sku = ''SKU-3'', name = ''Gizmo'', stock_level = 12,
        price = Some (Decimal 0 2)\<rparr>]"

definition sample_products :: "decimal pyval list" where
  "sample_products =
     [PDict [(''id'', PStr ''1''), (''sku'', PStr ''SKU-1''), (''name'', PStr ''Widget''),
             (''stock_level'', PInt 7), (''price'', PFloat (Decimal 1999 2)),
             (''discounted_price'', PFloat (Decimal 17991 3))],
      PDict [(''id'', PStr ''2''), (''sku'', PStr ''SKU-2''), (''name'', PStr ''Gadget''),
             (''stock_level'', PInt 0), (''price'', PInt 0), (''discounted_price'', PInt 0)],
      PDict [(''id'', PStr ''c3''), (''sku'', PStr ''SKU-3''), (''name'', PStr ''Gizmo''),
             (''stock_level'', PInt 12), (''price'', PInt 0), (''discounted_price'', PInt 0)]]"

definition sample_payload :: string where
  "sample_payload =
     ''[{\"id\": \"1\", \"sku\": \"SKU-1\", \"name\": \"Widget\", \"stock_level\": 7, \"price\": 19.99, \"discounted_price\": 17.991}, {\"id\": \"2\", \"sku\": \"SKU-2\", \"name\": \"Gadget\", \"stock_level\": 0, \"price\": 0, \"discounted_price\": 0}, {\"id\": \"c3\", \"sku\": \"SKU-3\", \"name\": \"Gizmo\", \"stock_level\": 12, \"price\": 0, \"discounted_price\": 0}]''"

definition sample_loads :: "string \<Rightarrow> exn + decimal pyval" where
  "sample_loads s =
     (if s = sample_payload then Inr (PList sample_products)
      else if s = ''42'' then Inr (PInt 42)
      else Inl (Exception ''JSONDecodeError''))"

definition sample_dumps :: "decimal pyval \<Rightarrow> exn + string" where
  "sample_dumps v =
     (if v = PList sample_products then Inr sample_payload
      else if v = PInt 42 then Inr ''42''
      else Inl (Exception ''TypeError''))"

definition sample_lib :: "(decimal, nat) pylib" where
  "sample_lib =
     \<lparr>json_loads = sample_loads,
      json_dumps = sample_dumps,
      float_of = (\<lambda>d. d),
      float_mul = decimal_mul,
      float_0_9 = Decimal 9 1,
      randint = (\<lambda>a b g. (a + int g mod (b - a + 1), Suc g)),
      uniform = (\<lambda>a b g. (Decimal (a * 100 + int g * 37 mod ((b - a) * 100 + 1)) 2, Suc g)),
      round_to = (\<lambda>x n. x)\<rparr>"

text \<open>A Redis that answers, with the given entries; a pool over a table, whose query
  returns the first \<open>limit\<close> rows and which PostgreSQL refuses for a negative
  \<^verbatim>\<open>LIMIT\<close>; and the world at the start of a request.\<close>

definition healthy_redis :: "(string \<Rightarrow> (string \<times> int) option) \<Rightarrow> redis" where
  "healthy_redis kv = \<lparr>entries = kv, get_fault = None, setex_fault = None\<rparr>"

definition healthy_pool :: "row list \<Rightarrow> pool" where
  "healthy_pool table =
     \<lparr>acquire_fault = None,
      fetch = (\<lambda>limit. if limit < 0 then Inl (Exception ''LIMIT must not be negative'')
                        else Inr (take (nat limit) table)),
      release_fault = None\<rparr>"

definition start :: "redis option \<Rightarrow> pool option \<Rightarrow> nat world" where
  "start r p =
     \<lparr>redis_client = r, db_pool = p, rng = 0, utcnow = ''2024-01-01T00:00:00'', trace = []\<rparr>"

text \<open>Collaborators that fail: a Redis whose commands raise, a pool that hands out no
  connection, and a pool whose connection is lost by the time it is released.\<close>

definition failing_redis :: redis where
  "failing_redis =
     \<lparr>entries = Map.empty, get_fault = Some (Exception ''Connection refused''),
      setex_fault = Some (Exception ''Connection refused'')\<rparr>"

definition failing_pool :: pool where
  "failing_pool =
     \<lparr>acquire_fault = Some (Exception ''too many connections''),
      fetch = (\<lambda>limit. Inl (Exception ''connection is closed'')),
      release_fault = None\<rparr>"

definition lossy_pool :: "row list \<Rightarrow> pool" where
  "lossy_pool table =
     (healthy_pool table)\<lparr>release_fault := Some (Exception ''connection is closed'')\<rparr>"

section \<open>Properties\<close>

subsection \<open>Evaluating the formatting functions and the sample library\<close>

lemma cache_key_10: "cache_key 10 = ''products:list:10''"
  by (simp add: cache_key_def str_int_def str_nat.simps digit_char_def)

lemma sample_product_list: "map (product_dict sample_lib) sample_rows = sample_products"
  by (simp add: sample_rows_def sample_products_def product_dict_def sample_lib_def
      str_int_def str_nat.simps digit_char_def)



lemma sample_loads_empty: "isl (json_loads sample_lib [])"
  by (simp add: sample_lib_def sample_loads_def sample_payload_def)

subsection \<open>The steps of the handler\<close>

lemma cache_writes_append: "cache_writes (xs @ ys) = cache_writes xs @ cache_writes ys"
  by (induction xs rule: cache_writes.induct) simp_all

lemma trace_emit: "trace (emit e w) = trace w @ [e]"
  and redis_client_emit: "redis_client (emit e w) = redis_client w"
  and db_pool_emit: "db_pool (emit e w) = db_pool w"
  and rng_emit: "rng (emit e w) = rng w"
  and utcnow_emit: "utcnow (emit e w) = utcnow w"
  by (simp_all add: emit_def)

lemmas emit_simps = trace_emit redis_client_emit db_pool_emit rng_emit utcnow_emit

lemma setex_calls_emit: "setex_calls lib limit plist (emit e w) = setex_calls lib limit plist w"
  by (simp add: setex_calls_def emit_simps)

text \<open>The cache step never raises, and changes nothing but the trace, where it leaves no
  \<^verbatim>\<open>setex\<close>.\<close>

lemma try_cache_no_raise: "\<exists>hit w1. try_cache lib limit w = (Inr hit, w1)"
  by (auto simp: try_cache_def read_cache_def try_except_def and_then_def
      split: option.splits sum.splits)

lemma try_cache_frame:
  assumes "try_cache lib limit w = (r, w1)"
  shows "redis_client w1 = redis_client w" "db_pool w1 = db_pool w" "rng w1 = rng w"
    "utcnow w1 = utcnow w" "cache_writes (trace w1) = cache_writes (trace w)"
  using assms
  by (auto simp: try_cache_def read_cache_def try_except_def and_then_def emit_simps
      cache_writes_append split: option.splits sum.splits if_splits)


lemma try_cache_hit:
  assumes "redis_client w = Some rc" and "get_fault rc = None"
    and "entries rc (cache_key limit) = Some (s, ttl)" and "s \<noteq> []"
    and "json_loads lib s = Inr v"
  shows "try_cache lib limit w = (Inr (Some v), emit (RedisGet (cache_key limit)) w)"
  using assms
  by (simp add: try_cache_def read_cache_def try_except_def and_then_def redis_get_def)

text \<open>The synthetic records: as many as the range has numbers.\<close>

lemma mock_products_length: "length (fst (mock_products lib is g)) = length is"
proof (induction "is" arbitrary: g)
  case Nil
  show ?case by simp
next
  case (Cons i "is")
  obtain p g1 where p: "mock_product lib i g = (p, g1)"
    by (cases "mock_product lib i g")
  obtain ps g2 where ps: "mock_products lib is g1 = (ps, g2)"
    by (cases "mock_products lib is g1")
  from Cons [of g1] ps have "length ps = length is" by simp
  with p ps show ?case by simp
qed

lemma mock_range_length: "length (py_range 1 (min (limit + 1) 6)) = nat (min limit 5)"
  by (simp add: py_range_def min_def)

lemma mock_result_eq:
  "\<exists>ps g. mock_result lib limit result w =
      (Inr (result\<lparr>products := PList ps, source := ''mock''\<rparr>), w\<lparr>rng := g\<rparr>) \<and>
     length ps = nat (min limit 5)"
proof -
  obtain ps g where m: "mock_products lib (py_range 1 (min (limit + 1) 6)) (rng w) = (ps, g)"
    by (cases "mock_products lib (py_range 1 (min (limit + 1) 6)) (rng w)")
  have "length ps = nat (min limit 5)"
    using mock_products_length [of lib "py_range 1 (min (limit + 1) 6)" "rng w"] m
    by (simp add: mock_range_length)
  moreover have "mock_result lib limit result w =
      (Inr (result\<lparr>products := PList ps, source := ''mock''\<rparr>), w\<lparr>rng := g\<rparr>)"
    using m by (simp add: mock_result_def)
  ultimately show ?thesis by blast
qed

text \<open>The write-back never raises; it leaves the \<^verbatim>\<open>setex\<close> calls of \<open>setex_calls\<close> in
  the trace, and the document in Redis when \<^verbatim>\<open>setex\<close> does not fail.\<close>

lemma cache_result_no_raise: "\<exists>w1. cache_result lib limit plist w = (Inr (), w1)"
  by (auto simp: cache_result_def try_except_def and_then_def
      split: option.splits sum.splits prod.splits)

lemma cache_result_frame:
  assumes "cache_result lib limit plist w = (r, w1)"
  shows "db_pool w1 = db_pool w" "rng w1 = rng w" "utcnow w1 = utcnow w"
    "cache_writes (trace w1) = cache_writes (trace w) @ setex_calls lib limit plist w"
  using assms
  by (auto simp: cache_result_def try_except_def and_then_def emit_simps setex_calls_def
      cache_writes_append split: option.splits sum.splits prod.splits if_splits)


text \<open>The body of the second \<^verbatim>\<open>try\<close>.\<close>

lemma fetch_products_returns:
  assumes "fetch_products lib limit pl w = (Inr plist, w')"
  shows "acquire_fault pl = None \<and> release_fault pl = None \<and>
    (\<exists>rows w1. fetch pl limit = Inr rows \<and> plist = map (product_dict lib) rows \<and>
       cache_result lib limit plist (emit (ConnFetch limit) (emit PoolAcquire w)) = (Inr (), w1) \<and>
       w' = emit PoolRelease w1)"
proof -
  from assms have a: "acquire_fault pl = None"
    by (auto simp: fetch_products_def and_then_def split: option.splits)
  from assms a have r: "release_fault pl = None"
    by (auto simp: fetch_products_def and_then_def release_def split: option.splits prod.splits)
  from assms a r obtain rows where f: "fetch pl limit = Inr rows"
    by (cases "fetch pl limit") (auto simp: fetch_products_def and_then_def release_def)
  obtain w1 where c: "cache_result lib limit (map (product_dict lib) rows)
      (emit (ConnFetch limit) (emit PoolAcquire w)) = (Inr (), w1)"
    using cache_result_no_raise by blast
  from assms a r f c have "plist = map (product_dict lib) rows \<and> w' = emit PoolRelease w1"
    by (auto simp: fetch_products_def and_then_def release_def Let_def)
  with a r f c show ?thesis by blast
qed

lemma fetch_products_success:
  assumes "acquire_fault pl = None" and "fetch pl limit = Inr rows" and "release_fault pl = None"
  shows "\<exists>w1. cache_result lib limit (map (product_dict lib) rows)
             (emit (ConnFetch limit) (emit PoolAcquire w)) = (Inr (), w1) \<and>
     fetch_products lib limit pl w = (Inr (map (product_dict lib) rows), emit PoolRelease w1)"
proof -
  obtain w1 where c: "cache_result lib limit (map (product_dict lib) rows)
      (emit (ConnFetch limit) (emit PoolAcquire w)) = (Inr (), w1)"
    using cache_result_no_raise by blast
  with assms have "fetch_products lib limit pl w =
      (Inr (map (product_dict lib) rows), emit PoolRelease w1)"
    by (simp add: fetch_products_def and_then_def release_def Let_def)
  with c show ?thesis by blast
qed

text \<open>What the body writes to the cache, whether it returns or raises: nothing before
  the query has returned its rows.\<close>

lemma fetch_products_writes:
  assumes "fetch_products lib limit pl w = (r, w')"
  shows "cache_writes (trace w') = cache_writes (trace w) @
    (case acquire_fault pl of
       Some e \<Rightarrow> []
     | None \<Rightarrow> (case fetch pl limit of
                  Inl e \<Rightarrow> []
                | Inr rows \<Rightarrow> setex_calls lib limit (map (product_dict lib) rows) w))"
proof (cases "acquire_fault pl")
  case (Some e)
  with assms show ?thesis
    by (auto simp: fetch_products_def and_then_def emit_simps cache_writes_append)
next
  case None
  show ?thesis
  proof (cases "fetch pl limit")
    case (Inl e)
    with None assms show ?thesis
      by (auto simp: fetch_products_def and_then_def release_def emit_simps cache_writes_append
          split: option.splits)
  next
    case (Inr rows)
    obtain w1 where c: "cache_result lib limit (map (product_dict lib) rows)
        (emit (ConnFetch limit) (emit PoolAcquire w)) = (Inr (), w1)"
      using cache_result_no_raise by blast
    from None Inr c assms have "w' = emit PoolRelease w1"
      by (auto simp: fetch_products_def and_then_def release_def Let_def split: option.splits)
    with cache_result_frame(4) [OF c] None Inr show ?thesis
      by (simp add: emit_simps cache_writes_append setex_calls_emit)
  qed
qed

lemma fetch_products_early_failure:
  assumes "acquire_fault pl \<noteq> None \<or> isl (fetch pl limit)"
    and "fetch_products lib limit pl w = (r, w')"
  shows "redis_client w' = redis_client w"
  using assms
  by (auto simp: fetch_products_def and_then_def release_def emit_simps
      split: option.splits sum.splits)

subsection \<open>The four ways through the handler\<close>

text \<open>
  The handler returns from the cache; or from the database; or, the second \<^verbatim>\<open>try\<close>
  having raised, with synthetic records; or, without a pool, with synthetic records.
  It never raises.
\<close>

lemma get_products_cases [case_names cache database failed unavailable]:
  obtains
    (cache) v w1 where "try_cache lib limit w = (Inr (Some v), w1)"
      and "get_products lib limit w =
        (Inr \<lparr>products = v, source = ''cache'', cached = True, timestamp = utcnow w\<rparr>, w1)"
  | (database) w1 pl plist w2 where "try_cache lib limit w = (Inr None, w1)"
      and "db_pool w = Some pl" and "fetch_products lib limit pl w1 = (Inr plist, w2)"
      and "get_products lib limit w =
        (Inr \<lparr>products = PList plist, source = ''database'', cached = False,
               timestamp = utcnow w\<rparr>, w2)"
  | (failed) w1 pl e w2 ps g where "try_cache lib limit w = (Inr None, w1)"
      and "db_pool w = Some pl" and "fetch_products lib limit pl w1 = (Inl e, w2)"
      and "length ps = nat (min limit 5)"
      and "get_products lib limit w =
        (Inr \<lparr>products = PList ps, source = ''mock'', cached = False, timestamp = utcnow w\<rparr>,
         (emit (LogError (''Database error: '' @ message e)) w2)\<lparr>rng := g\<rparr>)"
  | (unavailable) w1 ps g where "try_cache lib limit w = (Inr None, w1)"
      and "db_pool w = None"
      and "length ps = nat (min limit 5)"
      and "get_products lib limit w =
        (Inr \<lparr>products = PList ps, source = ''mock'', cached = False, timestamp = utcnow w\<rparr>,
         w1\<lparr>rng := g\<rparr>)"
proof -
  let ?result = "\<lparr>products = PList [], source = ''database'', cached = False,
    timestamp = utcnow w\<rparr> :: 'a query_result"
  obtain hit w1 where t: "try_cache lib limit w = (Inr hit, w1)"
    using try_cache_no_raise by blast
  have pool: "db_pool w1 = db_pool w"
    using try_cache_frame(2) [OF t] .
  have g: "get_products lib limit w =
      (case hit of
         Some v \<Rightarrow> (Inr (?result\<lparr>products := v, source := ''cache'', cached := True\<rparr>), w1)
       | None \<Rightarrow> fetch_or_mock lib limit ?result w1)"
    using t by (simp add: get_products_def and_then_def Let_def split: option.splits)
  show ?thesis
  proof (cases hit)
    case (Some v)
    with g t show ?thesis by (intro cache [of v w1]) simp_all
  next
    case None
    note miss = None
    show ?thesis
    proof (cases "db_pool w")
      case None
      obtain ps g' where m: "mock_result lib limit ?result w1 =
          (Inr (?result\<lparr>products := PList ps, source := ''mock''\<rparr>), w1\<lparr>rng := g'\<rparr>)"
        and l: "length ps = nat (min limit 5)"
        using mock_result_eq [of lib limit ?result w1] by blast
      from g miss None pool m have "get_products lib limit w =
          (Inr \<lparr>products = PList ps, source = ''mock'', cached = False, timestamp = utcnow w\<rparr>,
           w1\<lparr>rng := g'\<rparr>)"
        by (simp add: fetch_or_mock_def)
      with t miss None l show ?thesis
        by (intro unavailable [of w1 ps g']) simp_all
    next
      case (Some pl)
      obtain r w2 where f: "fetch_products lib limit pl w1 = (r, w2)"
        by (cases "fetch_products lib limit pl w1")
      show ?thesis
      proof (cases r)
        case (Inr plist)
        from g miss Some pool f Inr have "get_products lib limit w =
            (Inr \<lparr>products = PList plist, source = ''database'', cached = False,
                   timestamp = utcnow w\<rparr>, w2)"
          by (simp add: fetch_or_mock_def try_except_def and_then_def)
        with t miss Some f Inr show ?thesis
          by (intro database [of w1 pl plist w2]) simp_all
      next
        case (Inl e)
        let ?w3 = "emit (LogError (''Database error: '' @ message e)) w2"
        obtain ps g' where m: "mock_result lib limit ?result ?w3 =
            (Inr (?result\<lparr>products := PList ps, source := ''mock''\<rparr>), ?w3\<lparr>rng := g'\<rparr>)"
          and l: "length ps = nat (min limit 5)"
          using mock_result_eq [of lib limit ?result ?w3] by blast
        from g miss Some pool f Inl m have "get_products lib limit w =
            (Inr \<lparr>products = PList ps, source = ''mock'', cached = False,
                   timestamp = utcnow w\<rparr>, ?w3\<lparr>rng := g'\<rparr>)"
          by (simp add: fetch_or_mock_def try_except_def and_then_def)
        with t miss Some f Inl l show ?thesis
          by (intro failed [of w1 pl e w2 ps g']) simp_all
      qed
    qed
  qed
qed

text \<open>A hit returns the parsed document.\<close>

lemma get_products_hit:
  assumes "redis_client w = Some rc" and "get_fault rc = None"
    and "entries rc (cache_key limit) = Some (s, ttl)" and "s \<noteq> []"
    and "json_loads lib s = Inr v"
  shows "get_products lib limit w =
    (Inr \<lparr>products = v, source = ''cache'', cached = True, timestamp = utcnow w\<rparr>,
     emit (RedisGet (cache_key limit)) w)"
  using try_cache_hit [OF assms]
  by (simp add: get_products_def and_then_def)

text \<open>When the cache step does not return and the store serves the query, the handler
  returns the store's rows.\<close>

lemma get_products_from_store:
  assumes "try_cache lib limit w = (Inr None, w1)"
    and "db_pool w = Some pl" and "acquire_fault pl = None"
    and "fetch pl limit = Inr rows" and "release_fault pl = None"
  shows "\<exists>w2. cache_result lib limit (map (product_dict lib) rows)
             (emit (ConnFetch limit) (emit PoolAcquire w1)) = (Inr (), w2) \<and>
     get_products lib limit w =
       (Inr \<lparr>products = PList (map (product_dict lib) rows), source = ''database'',
              cached = False, timestamp = utcnow w\<rparr>, emit PoolRelease w2)"
proof -
  obtain w2 where c: "cache_result lib limit (map (product_dict lib) rows)
      (emit (ConnFetch limit) (emit PoolAcquire w1)) = (Inr (), w2)"
    and f: "fetch_products lib limit pl w1 =
      (Inr (map (product_dict lib) rows), emit PoolRelease w2)"
    using fetch_products_success [OF assms(3-5), of lib w1] by blast
  have "db_pool w1 = Some pl"
    using try_cache_frame(2) [OF assms(1)] assms(2) by simp
  with assms(1) f have "get_products lib limit w =
      (Inr \<lparr>products = PList (map (product_dict lib) rows), source = ''database'',
             cached = False, timestamp = utcnow w\<rparr>, emit PoolRelease w2)"
    by (simp add: get_products_def and_then_def fetch_or_mock_def try_except_def)
  with c show ?thesis by blast
qed

lemma discount_applied_product_dict: "discount_applied lib (product_dict lib p)"
  by (cases "nonzero_price (price p)") (simp_all add: discount_applied_def product_dict_def)

lemma get_products_returns: "\<exists>r w'. get_products lib limit w = (Inr r, w')"
  by (cases lib limit w rule: get_products_cases) simp_all

lemma setex_calls_member:
  assumes "(k, ttl, v) \<in> set (setex_calls lib limit plist w)"
  shows "k = cache_key limit \<and> ttl = 300 \<and> json_dumps lib (PList plist) = Inr v"
  using assms by (auto simp: setex_calls_def split: if_splits sum.splits)



subsection \<open>What the handler guarantees\<close>

text \<open>
  C1. For every limit above zero the handler never raises: whatever the cache and the
  store do, it returns a result whose source is \<^verbatim>\<open>cache\<close>, \<^verbatim>\<open>database\<close> or
  \<^verbatim>\<open>mock\<close>.
\<close>

theorem get_products_never_raises:
  assumes "0 < limit"
  shows "\<exists>r. fst (get_products lib limit w) = Inr r \<and>
    source r \<in> {''cache'', ''database'', ''mock''}"
  by (cases lib limit w rule: get_products_cases) simp_all

theorem get_products_never_raises_witness:
  "(0::int) < 10 \<and>
   (\<exists>r. fst (get_products sample_lib 10 (start (Some failing_redis) (Some failing_pool))) = Inr r \<and>
      source r = ''mock'' \<and> source r \<in> {''cache'', ''database'', ''mock''})"
proof -
  let ?w = "start (Some failing_redis) (Some failing_pool)"
  obtain r where r: "fst (get_products sample_lib 10 ?w) = Inr r"
    and "source r \<in> {''cache'', ''database'', ''mock''}"
    using get_products_never_raises [of 10 sample_lib ?w] by auto
  moreover have "source (projr (fst (get_products sample_lib 10 ?w))) = ''mock''"
    by code_simp
  ultimately show ?thesis by simp
qed




text \<open>
  C4. For every limit above zero, a result whose source is \<^verbatim>\<open>mock\<close> has exactly
  \<open>min limit 5\<close> records; with a limit of 20 and no store, five.
\<close>

theorem mock_record_count:
  assumes "0 < limit" and "fst (get_products lib limit w) = Inr r" and "source r = ''mock''"
  shows "\<exists>ps. products r = PList ps \<and> int (length ps) = min limit 5"
  using assms by (cases lib limit w rule: get_products_cases) auto

theorem mock_record_count_witness:
  "(0::int) < 20 \<and>
   (\<exists>r. fst (get_products sample_lib 20 (start None None)) = Inr r \<and> source r = ''mock'' \<and>
      (\<exists>ps. products r = PList ps \<and> length ps = 5))"
proof -
  let ?w = "start None None :: nat world"
  obtain r where r: "fst (get_products sample_lib 20 ?w) = Inr r"
    using get_products_returns [of sample_lib 20 ?w] by auto
  have "source (projr (fst (get_products sample_lib 20 ?w))) = ''mock''"
    by code_simp
  with r have s: "source r = ''mock''" by simp
  from mock_record_count [of 20 sample_lib ?w r] r s
  show ?thesis by auto
qed

text \<open>
  C3, as stated: whenever the store read succeeds, also with zero rows, a write-back to
  the cache is attempted. With a healthy cache and a store that returns no row, the
  handler returns the empty list from the database and calls \<^verbatim>\<open>setex\<close> not once:
  line 376 guards the write-back with \<^verbatim>\<open>if redis_client and product_list\<close>, and an
  empty list is false.
\<close>

theorem no_rows_no_write_back:
  "fetch (healthy_pool []) 10 = Inr [] \<and>
   fst (get_products sample_lib 10
          (start (Some (healthy_redis Map.empty)) (Some (healthy_pool [])))) =
     Inr \<lparr>products = PList [], source = ''database'', cached = False,
            timestamp = ''2024-01-01T00:00:00''\<rparr> \<and>
   cache_writes (trace (snd (get_products sample_lib 10
          (start (Some (healthy_redis Map.empty)) (Some (healthy_pool [])))))) = []"
  by code_simp

text \<open>
  C3, amended: whenever the cache step does not return and the store read succeeds
  (a connection is acquired, the query returns its rows, the connection is released),
  the handler returns the records built from the rows with source \<^verbatim>\<open>database\<close> and
  \<^verbatim>\<open>cached\<close> false, whether or not the write-back fails. It calls \<^verbatim>\<open>setex\<close> once,
  with the key \<^verbatim>\<open>products:list:<limit>\<close>, 300 seconds and the serialised list, when
  there is a Redis client, at least one row, and \<^verbatim>\<open>json.dumps\<close> returns; otherwise it
  calls \<^verbatim>\<open>setex\<close> not at all.
\<close>

theorem store_rows_returned_and_written_back:
  assumes "fst (try_cache lib limit w) = Inr None"
    and "db_pool w = Some pl" and "acquire_fault pl = None"
    and "fetch pl limit = Inr rows" and "release_fault pl = None"
  shows "fst (get_products lib limit w) =
      Inr \<lparr>products = PList (map (product_dict lib) rows), source = ''database'',
             cached = False, timestamp = utcnow w\<rparr> \<and>
    cache_writes (trace (snd (get_products lib limit w))) =
      cache_writes (trace w) @
        (if redis_client w = None \<or> rows = [] then []
         else (case json_dumps lib (PList (map (product_dict lib) rows)) of
                 Inl e \<Rightarrow> []
               | Inr payload \<Rightarrow> [(cache_key limit, 300, payload)]))"
proof -
  obtain w1 where t: "try_cache lib limit w = (Inr None, w1)"
    using assms(1) by (cases "try_cache lib limit w") simp
  obtain w2 where c: "cache_result lib limit (map (product_dict lib) rows)
      (emit (ConnFetch limit) (emit PoolAcquire w1)) = (Inr (), w2)"
    and g: "get_products lib limit w =
      (Inr \<lparr>products = PList (map (product_dict lib) rows), source = ''database'',
             cached = False, timestamp = utcnow w\<rparr>, emit PoolRelease w2)"
    using get_products_from_store [OF t assms(2-5)] by blast
  have "cache_writes (trace w2) =
      cache_writes (trace w) @ setex_calls lib limit (map (product_dict lib) rows) w1"
    using cache_result_frame(4) [OF c] try_cache_frame(5) [OF t]
    by (simp add: emit_simps cache_writes_append setex_calls_emit)
  moreover have "setex_calls lib limit (map (product_dict lib) rows) w1 =
      (if redis_client w = None \<or> rows = [] then []
       else (case json_dumps lib (PList (map (product_dict lib) rows)) of
               Inl e \<Rightarrow> []
             | Inr payload \<Rightarrow> [(cache_key limit, 300, payload)]))"
    using try_cache_frame(1) [OF t] by (simp add: setex_calls_def)
  ultimately show ?thesis
    using g by (simp add: emit_simps cache_writes_append)
qed

theorem store_rows_returned_and_written_back_witness:
  "fst (try_cache sample_lib 10
          (start (Some (healthy_redis Map.empty)) (Some (healthy_pool sample_rows)))) = Inr None \<and>
   acquire_fault (healthy_pool sample_rows) = None \<and>
   fetch (healthy_pool sample_rows) 10 = Inr sample_rows \<and>
   release_fault (healthy_pool sample_rows) = None \<and>
   fst (get_products sample_lib 10
          (start (Some (healthy_redis Map.empty)) (Some (healthy_pool sample_rows)))) =
     Inr \<lparr>products = PList sample_products, source = ''database'', cached = False,
            timestamp = ''2024-01-01T00:00:00''\<rparr> \<and>
   cache_writes (trace (snd (get_products sample_lib 10
          (start (Some (healthy_redis Map.empty)) (Some (healthy_pool sample_rows)))))) =
     [(''products:list:10'', 300, sample_payload)]"
proof -
  let ?w = "start (Some (healthy_redis Map.empty)) (Some (healthy_pool sample_rows))"
  have h1: "fst (try_cache sample_lib 10 ?w) = Inr None"
    by code_simp
  have h2: "db_pool ?w = Some (healthy_pool sample_rows)"
    by (simp add: start_def)
  have h3: "acquire_fault (healthy_pool sample_rows) = None"
    and h5: "release_fault (healthy_pool sample_rows) = None"
    by (simp_all add: healthy_pool_def)
  have h4: "fetch (healthy_pool sample_rows) 10 = Inr sample_rows"
    by (simp add: healthy_pool_def sample_rows_def)
  have d: "json_dumps sample_lib (PList sample_products) = Inr sample_payload"
    by (simp add: sample_lib_def sample_dumps_def)
  have n: "sample_rows \<noteq> []" "redis_client ?w \<noteq> None" "utcnow ?w = ''2024-01-01T00:00:00''"
    "trace ?w = []"
    by (simp_all add: sample_rows_def start_def)
  from store_rows_returned_and_written_back [OF h1 h2 h3 h4 h5] h1 h3 h4 h5 d n
  show ?thesis
    by (simp add: sample_product_list cache_key_10)
qed

text \<open>
  C5. A result whose source is \<^verbatim>\<open>database\<close> is not \<^verbatim>\<open>cached\<close>, holds one record
  for each row the store returned, in their order, and each record carries the
  discount: its \<^verbatim>\<open>discounted_price\<close> is its \<^verbatim>\<open>price\<close> times \<^verbatim>\<open>0.9\<close>.
\<close>

theorem database_records_are_discounted:
  assumes "fst (get_products lib limit w) = Inr r" and "source r = ''database''"
  shows "\<not> cached r \<and>
    (\<exists>pl rows. db_pool w = Some pl \<and> fetch pl limit = Inr rows \<and>
       products r = PList (map (product_dict lib) rows) \<and>
       (\<forall>d \<in> set (map (product_dict lib) rows). discount_applied lib d))"
proof (cases lib limit w rule: get_products_cases)
  case (database w1 pl plist w2)
  from fetch_products_returns [OF database(3)]
  obtain rows where "fetch pl limit = Inr rows" and "plist = map (product_dict lib) rows"
    by blast
  with database(2,4) assms(1) show ?thesis
    by (auto simp: discount_applied_product_dict)
qed (use assms in auto)

theorem database_records_are_discounted_witness:
  "fst (get_products sample_lib 10
          (start (Some (healthy_redis Map.empty)) (Some (healthy_pool sample_rows)))) =
     Inr \<lparr>products = PList sample_products, source = ''database'', cached = False,
            timestamp = ''2024-01-01T00:00:00''\<rparr> \<and>
   length sample_products = 3 \<and>
   (\<exists>pl rows. db_pool (start (Some (healthy_redis Map.empty)) (Some (healthy_pool sample_rows))) = Some pl \<and>
       fetch pl 10 = Inr rows \<and>
       PList sample_products = PList (map (product_dict sample_lib) rows) \<and>
       list_all (discount_applied sample_lib) (map (product_dict sample_lib) rows))"
proof -
  let ?w = "start (Some (healthy_redis Map.empty)) (Some (healthy_pool sample_rows))"
  let ?r = "\<lparr>products = PList sample_products, source = ''database'', cached = False,
            timestamp = ''2024-01-01T00:00:00''\<rparr>"
  have g: "fst (get_products sample_lib 10 ?w) = Inr ?r"
    by code_simp
  have l: "length sample_products = 3"
    by (simp add: sample_products_def)
  from database_records_are_discounted [of sample_lib 10 ?w ?r, OF g] g l
  show ?thesis
    by (simp add: list_all_iff)
qed

text \<open>
  C6. When Redis returns a value for the key and \<^verbatim>\<open>json.loads\<close> raises on it, the
  handler goes on to the store as it does on a miss (no entry, or the empty string),
  with one more warning in the log; it does not raise. When \<^verbatim>\<open>json.loads\<close> returns,
  the handler returns the parsed document with source \<^verbatim>\<open>cache\<close> and \<^verbatim>\<open>cached\<close>
  true.
\<close>

theorem corrupt_entry_is_a_miss:
  assumes "redis_client w = Some rc" and "get_fault rc = None"
  shows "get_products lib limit w =
      (case entries rc (cache_key limit) of
         None \<Rightarrow>
           fetch_or_mock lib limit
             \<lparr>products = PList [], source = ''database'', cached = False, timestamp = utcnow w\<rparr>
             (emit (RedisGet (cache_key limit)) w)
       | Some (s, ttl) \<Rightarrow>
           if s = [] then
             fetch_or_mock lib limit
               \<lparr>products = PList [], source = ''database'', cached = False, timestamp = utcnow w\<rparr>
               (emit (RedisGet (cache_key limit)) w)
           else
             (case json_loads lib s of
                Inl e \<Rightarrow>
                  fetch_or_mock lib limit
                    \<lparr>products = PList [], source = ''database'', cached = False,
                       timestamp = utcnow w\<rparr>
                    (emit (LogWarning (''Cache read failed: '' @ message e))
                       (emit (RedisGet (cache_key limit)) w))
              | Inr v \<Rightarrow>
                  (Inr \<lparr>products = v, source = ''cache'', cached = True, timestamp = utcnow w\<rparr>,
                   emit (RedisGet (cache_key limit)) w))) \<and>
    (\<exists>r. fst (get_products lib limit w) = Inr r)"
proof -
  have "\<exists>r. fst (get_products lib limit w) = Inr r"
    using get_products_returns [of lib limit w] by auto
  moreover have "get_products lib limit w =
      (case entries rc (cache_key limit) of
         None \<Rightarrow>
           fetch_or_mock lib limit
             \<lparr>products = PList [], source = ''database'', cached = False, timestamp = utcnow w\<rparr>
             (emit (RedisGet (cache_key limit)) w)
       | Some (s, ttl) \<Rightarrow>
           if s = [] then
             fetch_or_mock lib limit
               \<lparr>products = PList [], source = ''database'', cached = False, timestamp = utcnow w\<rparr>
               (emit (RedisGet (cache_key limit)) w)
           else
             (case json_loads lib s of
                Inl e \<Rightarrow>
                  fetch_or_mock lib limit
                    \<lparr>products = PList [], source = ''database'', cached = False,
                       timestamp = utcnow w\<rparr>
                    (emit (LogWarning (''Cache read failed: '' @ message e))
                       (emit (RedisGet (cache_key limit)) w))
              | Inr v \<Rightarrow>
                  (Inr \<lparr>products = v, source = ''cache'', cached = True, timestamp = utcnow w\<rparr>,
                   emit (RedisGet (cache_key limit)) w)))"
    using assms
    by (simp add: get_products_def try_cache_def read_cache_def try_except_def and_then_def
        redis_get_def Let_def split: option.splits sum.splits)
  ultimately show ?thesis by simp
qed

theorem corrupt_entry_is_a_miss_witness:
  "get_fault (healthy_redis (Map.empty(''products:list:10'' \<mapsto> (''{not json'', 120)))) = None \<and>
   entries (healthy_redis (Map.empty(''products:list:10'' \<mapsto> (''{not json'', 120)))) (cache_key 10) =
     Some (''{not json'', 120) \<and>
   json_loads sample_lib ''{not json'' = Inl (Exception ''JSONDecodeError'') \<and>
   get_products sample_lib 10
     (start (Some (healthy_redis (Map.empty(''products:list:10'' \<mapsto> (''{not json'', 120)))))
        (Some (healthy_pool sample_rows))) =
     fetch_or_mock sample_lib 10
       \<lparr>products = PList [], source = ''database'', cached = False,
          timestamp = ''2024-01-01T00:00:00''\<rparr>
       (emit (LogWarning ''Cache read failed: JSONDecodeError'')
          (emit (RedisGet ''products:list:10'')
             (start (Some (healthy_redis (Map.empty(''products:list:10'' \<mapsto> (''{not json'', 120)))))
                (Some (healthy_pool sample_rows))))) \<and>
   fst (get_products sample_lib 10
     (start (Some (healthy_redis (Map.empty(''products:list:10'' \<mapsto> (''{not json'', 120)))))
        (Some (healthy_pool sample_rows)))) =
     Inr \<lparr>products = PList sample_products, source = ''database'', cached = False,
            timestamp = ''2024-01-01T00:00:00''\<rparr>"
proof -
  let ?rc = "healthy_redis (Map.empty(''products:list:10'' \<mapsto> (''{not json'', 120)))"
  let ?w = "start (Some ?rc) (Some (healthy_pool sample_rows))"
  have h1: "redis_client ?w = Some ?rc" and u: "utcnow ?w = ''2024-01-01T00:00:00''"
    by (simp_all add: start_def)
  have h2: "get_fault ?rc = None"
    by (simp add: healthy_redis_def)
  have e: "entries ?rc (cache_key 10) = Some (''{not json'', 120)"
    by (simp add: healthy_redis_def cache_key_10)
  have l: "json_loads sample_lib ''{not json'' = Inl (Exception ''JSONDecodeError'')"
    by (simp add: sample_lib_def sample_loads_def sample_payload_def)
  have r: "fst (get_products sample_lib 10 ?w) =
     Inr \<lparr>products = PList sample_products, source = ''database'', cached = False,
            timestamp = ''2024-01-01T00:00:00''\<rparr>"
    by code_simp
  from corrupt_entry_is_a_miss [OF h1 h2, of sample_lib 10] h2 e l u r
  show ?thesis
    by (simp add: cache_key_10)
qed

text \<open>
  C10. The cache step does not look at the shape of the cached document: for every
  string under the key that \<^verbatim>\<open>json.loads\<close> parses (a number, an object, anything),
  the handler returns the parsed value as the records, with source \<^verbatim>\<open>cache\<close> and
  \<^verbatim>\<open>cached\<close> true. That the empty string is no JSON document is a fact of
  \<^verbatim>\<open>json.loads\<close>, assumed of the library.
\<close>

theorem cached_document_returned_verbatim:
  assumes "redis_client w = Some rc" and "get_fault rc = None"
    and "entries rc (cache_key limit) = Some (s, ttl)"
    and "json_loads lib s = Inr v" and "isl (json_loads lib [])"
  shows "get_products lib limit w =
    (Inr \<lparr>products = v, source = ''cache'', cached = True, timestamp = utcnow w\<rparr>,
     emit (RedisGet (cache_key limit)) w)"
proof -
  from assms(4,5) have n: "s \<noteq> []" by auto
  show ?thesis by (rule get_products_hit [OF assms(1-3) n assms(4)])
qed

theorem cached_document_returned_verbatim_witness:
  "get_fault (healthy_redis (Map.empty(''products:list:10'' \<mapsto> (''42'', 120)))) = None \<and>
   entries (healthy_redis (Map.empty(''products:list:10'' \<mapsto> (''42'', 120)))) (cache_key 10) =
     Some (''42'', 120) \<and>
   json_loads sample_lib ''42'' = Inr (PInt 42) \<and>
   isl (json_loads sample_lib []) \<and>
   fst (get_products sample_lib 10
     (start (Some (healthy_redis (Map.empty(''products:list:10'' \<mapsto> (''42'', 120))))) None)) =
     Inr \<lparr>products = PInt 42, source = ''cache'', cached = True,
            timestamp = ''2024-01-01T00:00:00''\<rparr>"
proof -
  let ?rc = "healthy_redis (Map.empty(''products:list:10'' \<mapsto> (''42'', 120)))"
  let ?w = "start (Some ?rc) None :: nat world"
  have h1: "redis_client ?w = Some ?rc" and u: "utcnow ?w = ''2024-01-01T00:00:00''"
    by (simp_all add: start_def)
  have h2: "get_fault ?rc = None"
    by (simp add: healthy_redis_def)
  have h3: "entries ?rc (cache_key 10) = Some (''42'', 120)"
    by (simp add: healthy_redis_def cache_key_10)
  have h4: "json_loads sample_lib ''42'' = Inr (PInt 42)"
    by (simp add: sample_lib_def sample_loads_def sample_payload_def)
  from cached_document_returned_verbatim [OF h1 h2 h3 h4 sample_loads_empty] h2 h3 h4
    sample_loads_empty u
  show ?thesis by simp
qed






text \<open>
  C9, as stated: in an execution whose result has source \<^verbatim>\<open>mock\<close> no cache write
  occurs. The write-back sits inside \<^verbatim>\<open>async with\<close>, inside the second \<^verbatim>\<open>try\<close>: when
  the rows were fetched and written to the cache, and releasing the connection then
  raises, the handler catches the exception and returns synthetic records; the cache has
  been written.
\<close>

theorem mock_after_write_back:
  "(\<exists>r. fst (get_products sample_lib 10
            (start (Some (healthy_redis Map.empty)) (Some (lossy_pool sample_rows)))) = Inr r \<and>
      source r = ''mock'') \<and>
   cache_writes (trace (snd (get_products sample_lib 10
            (start (Some (healthy_redis Map.empty)) (Some (lossy_pool sample_rows)))))) =
     [(''products:list:10'', 300, sample_payload)]"
proof -
  let ?w = "start (Some (healthy_redis Map.empty)) (Some (lossy_pool sample_rows))"
  obtain r w' where g: "get_products sample_lib 10 ?w = (Inr r, w')"
    using get_products_returns [of sample_lib 10 ?w] by blast
  have "source (projr (fst (get_products sample_lib 10 ?w))) = ''mock''"
    by code_simp
  with g have "source r = ''mock''" by simp
  moreover have "cache_writes (trace (snd (get_products sample_lib 10 ?w))) =
      [(''products:list:10'', 300, sample_payload)]"
    by code_simp
  ultimately show ?thesis using g by simp
qed

text \<open>
  C9, amended: synthetic records are never written to the cache. In every execution,
  each \<^verbatim>\<open>setex\<close> of the handler is under the key of the limit, with 300 seconds, and
  carries \<^verbatim>\<open>json.dumps\<close> of the list built from the rows that the store returned. And
  in every execution whose source is \<^verbatim>\<open>mock\<close> because there is no pool, no
  connection could be acquired, or the query raised, no cache write occurs and Redis is
  left as it was.
\<close>

theorem synthetic_records_never_cached:
  assumes "get_products lib limit w = (Inr r, w')"
  shows "(\<exists>ws. cache_writes (trace w') = cache_writes (trace w) @ ws \<and>
      (\<forall>(k, ttl, v) \<in> set ws.
         k = cache_key limit \<and> ttl = 300 \<and>
         (\<exists>pl rows. db_pool w = Some pl \<and> fetch pl limit = Inr rows \<and>
            json_dumps lib (PList (map (product_dict lib) rows)) = Inr v))) \<and>
    (source r = ''mock'' \<and>
       (case db_pool w of
          None \<Rightarrow> True
        | Some pl \<Rightarrow> acquire_fault pl \<noteq> None \<or> isl (fetch pl limit)) \<longrightarrow>
     cache_writes (trace w') = cache_writes (trace w) \<and> redis_client w' = redis_client w)"
proof (cases lib limit w rule: get_products_cases)
  case (cache v w1)
  with assms try_cache_frame(5) [OF cache(1)] show ?thesis
    by auto
next
  case (database w1 pl plist w2)
  from fetch_products_returns [OF database(3)]
  obtain rows where a: "acquire_fault pl = None" and f: "fetch pl limit = Inr rows"
    and p: "plist = map (product_dict lib) rows"
    by blast
  have "cache_writes (trace w2) =
      cache_writes (trace w) @ setex_calls lib limit (map (product_dict lib) rows) w1"
    using fetch_products_writes [OF database(3)] a f try_cache_frame(5) [OF database(1)]
    by simp
  moreover have "\<forall>(k, ttl, v) \<in> set (setex_calls lib limit (map (product_dict lib) rows) w1).
      k = cache_key limit \<and> ttl = 300 \<and>
      (\<exists>pl rows. db_pool w = Some pl \<and> fetch pl limit = Inr rows \<and>
         json_dumps lib (PList (map (product_dict lib) rows)) = Inr v)"
    using database(2) f by (auto dest: setex_calls_member)
  ultimately show ?thesis
    using database(4) assms by auto
next
  case (failed w1 pl e w2 ps g)
  let ?ws = "case acquire_fault pl of
       Some e \<Rightarrow> []
     | None \<Rightarrow> (case fetch pl limit of
                  Inl e \<Rightarrow> []
                | Inr rows \<Rightarrow> setex_calls lib limit (map (product_dict lib) rows) w1)"
  from failed(5) assms have w': "w' = (emit (LogError (''Database error: '' @ message e)) w2)\<lparr>rng := g\<rparr>"
    and r: "source r = ''mock''"
    by auto
  have tr: "cache_writes (trace w') = cache_writes (trace w) @ ?ws"
    using fetch_products_writes [OF failed(3)] try_cache_frame(5) [OF failed(1)] w'
    by (simp add: emit_simps cache_writes_append)
  have el: "\<forall>(k, ttl, v) \<in> set ?ws.
      k = cache_key limit \<and> ttl = 300 \<and>
      (\<exists>pl rows. db_pool w = Some pl \<and> fetch pl limit = Inr rows \<and>
         json_dumps lib (PList (map (product_dict lib) rows)) = Inr v)"
  proof (cases "acquire_fault pl")
    case (Some e')
    then show ?thesis by simp
  next
    case None
    show ?thesis
    proof (cases "fetch pl limit")
      case (Inl e')
      with None show ?thesis by simp
    next
      case (Inr rows)
      with None failed(2) show ?thesis
        by (auto dest: setex_calls_member)
    qed
  qed
  have early: "acquire_fault pl \<noteq> None \<or> isl (fetch pl limit) \<Longrightarrow>
      ?ws = [] \<and> redis_client w' = redis_client w"
    using fetch_products_early_failure [OF _ failed(3)] try_cache_frame(1) [OF failed(1)] w'
    by (auto simp: emit_simps split: sum.splits option.splits)
  from tr el early failed(2) show ?thesis
    by auto
next
  case (unavailable w1 ps g)
  from unavailable(4) assms have "w' = w1\<lparr>rng := g\<rparr>" by simp
  with try_cache_frame(1,5) [OF unavailable(1)] show ?thesis
    by auto
qed

theorem synthetic_records_never_cached_witness:
  "(\<exists>r w'. get_products sample_lib 20
        (start (Some (healthy_redis Map.empty)) (Some failing_pool)) = (Inr r, w') \<and>
      source r = ''mock'' \<and>
      acquire_fault failing_pool \<noteq> None \<and>
      cache_writes (trace w') = [] \<and>
      redis_client w' = Some (healthy_redis Map.empty))"
proof -
  let ?w = "start (Some (healthy_redis Map.empty)) (Some failing_pool)"
  obtain r w' where g: "get_products sample_lib 20 ?w = (Inr r, w')"
    using get_products_returns [of sample_lib 20 ?w] by blast
  have "source (projr (fst (get_products sample_lib 20 ?w))) = ''mock''"
    by code_simp
  with g have m: "source r = ''mock''" by simp
  have p: "db_pool ?w = Some failing_pool" and t: "trace ?w = []"
    and c: "redis_client ?w = Some (healthy_redis Map.empty)"
    by (simp_all add: start_def)
  have a: "acquire_fault failing_pool \<noteq> None"
    by (simp add: failing_pool_def)
  from synthetic_records_never_cached [OF g] g m p t c a
  show ?thesis
    by simp
qed

end
